theory Spec2Isabelle
  imports Main "HOL-Library.Word"
begin

section \<open>AudioPlayer.h: the playback activity and its textual rendering\<close>

subsection \<open>PlayerActivity\<close>

text \<open>
  \<^verbatim>\<open>enum class PlayerActivity { IDLE, PLAYING, STOPPED, PAUSED, BUFFER_UNDERRUN, FINISHED };\<close>
  The six enumerators, in declaration order.
\<close>

datatype PlayerActivity = IDLE | PLAYING | STOPPED | PAUSED | BUFFER_UNDERRUN | FINISHED

text \<open>
  A scoped enumeration without an explicit base has the underlying type \<^verbatim>\<open>int\<close>, and an
  object of the enumeration type can hold every value of that type, not only the six
  enumerators (a \<^verbatim>\<open>static_cast\<close> produces the others). An object of type
  \<^verbatim>\<open>PlayerActivity\<close> is therefore modelled by its 32-bit representation; the enumerators
  are numbered from 0 in declaration order.
\<close>

type_synonym activity_rep = "32 word"

fun enumerator_value :: "PlayerActivity \<Rightarrow> activity_rep" where
  "enumerator_value IDLE = 0"
| "enumerator_value PLAYING = 1"
| "enumerator_value STOPPED = 2"
| "enumerator_value PAUSED = 3"
| "enumerator_value BUFFER_UNDERRUN = 4"
| "enumerator_value FINISHED = 5"

definition enumerators :: "PlayerActivity list" where
  "enumerators = [IDLE, PLAYING, STOPPED, PAUSED, BUFFER_UNDERRUN, FINISHED]"

definition is_enumerator :: "activity_rep \<Rightarrow> bool" where
  "is_enumerator v = (v \<in> set (map enumerator_value enumerators))"

subsection \<open>operator<<\<close>

text \<open>
  \<^verbatim>\<open>inline std::ostream& operator<<(std::ostream& stream, const AudioPlayer::PlayerActivity& state)\<close>

  The stream is modelled by the characters written to it so far. The \<^verbatim>\<open>switch\<close> is
  split the way it runs: first the case label equal to the operand is selected
  (\<open>switch_label\<close>; there is no \<^verbatim>\<open>default\<close> label, so no label may be selected),
  then the body of that case writes its literal (\<open>case_literal\<close>) and breaks; in every
  path the stream is returned.
\<close>

definition switch_label :: "activity_rep \<Rightarrow> PlayerActivity option" where
  "switch_label state =
     (if state = enumerator_value IDLE then Some IDLE
      else if state = enumerator_value PLAYING then Some PLAYING
      else if state = enumerator_value STOPPED then Some STOPPED
      else if state = enumerator_value PAUSED then Some PAUSED
      else if state = enumerator_value BUFFER_UNDERRUN then Some BUFFER_UNDERRUN
      else if state = enumerator_value FINISHED then Some FINISHED
      else None)"

fun case_literal :: "PlayerActivity \<Rightarrow> string" where
  "case_literal IDLE = ''IDLE''"
| "case_literal PLAYING = ''PLAYING''"
| "case_literal STOPPED = ''STOPPED''"
| "case_literal PAUSED = ''PAUSED''"
| "case_literal BUFFER_UNDERRUN = ''BUFFER_UNDERRUN''"
| "case_literal FINISHED = ''FINISHED''"

definition operator_shift :: "string \<Rightarrow> activity_rep \<Rightarrow> string" where
  "operator_shift stream state =
     (case switch_label state of
        Some label \<Rightarrow> stream @ case_literal label
      | None \<Rightarrow> stream)"

text \<open>The rendering of a value: what the operator writes to an empty stream.\<close>

definition rendering :: "activity_rep \<Rightarrow> string" where
  "rendering state = operator_shift [] state"

section \<open>AudioPlayer.h: the AudioPlayer class\<close>

subsection \<open>Times\<close>

text \<open>\<^verbatim>\<open>static const int64_t TIME_UNKNOWN = -1;\<close> A 64-bit value, read as two's complement.\<close>

type_synonym int64_t = "64 word"

definition TIME_UNKNOWN :: int64_t where
  "TIME_UNKNOWN = - 1"

subsection \<open>Engine-side objects and the pointers to them\<close>

text \<open>
  The member \<^verbatim>\<open>std::weak_ptr<AudioPlayerEngineInterface> m_audioPlayerEngineInterface\<close>
  and the argument of \<^verbatim>\<open>setEngineInterface\<close>, a \<^verbatim>\<open>std::shared_ptr\<close>, refer to an
  object of the engine. Engine objects have an identity (\<open>engine_ref\<close>); the objects that
  are alive are a map from identities to the object's state, and a destroyed object is
  absent from it. A shared pointer is an identity or null; a weak pointer is an identity
  or empty, and owns nothing: \<^verbatim>\<open>lock()\<close> yields a shared pointer to the object while it
  is alive and null otherwise, and \<^verbatim>\<open>expired()\<close> says that \<^verbatim>\<open>lock()\<close> would yield null.
\<close>

type_synonym engine_ref = nat
type_synonym shared_ptr = "engine_ref option"
type_synonym weak_ptr = "engine_ref option"

definition lock :: "(engine_ref \<rightharpoonup> 'e) \<Rightarrow> weak_ptr \<Rightarrow> shared_ptr" where
  "lock alive wp =
     (case wp of
        None \<Rightarrow> None
      | Some r \<Rightarrow> (case alive r of None \<Rightarrow> None | Some obj \<Rightarrow> Some r))"

definition expired :: "(engine_ref \<rightharpoonup> 'e) \<Rightarrow> weak_ptr \<Rightarrow> bool" where
  "expired alive wp = (lock alive wp = None)"

text \<open>The destruction of an engine object: it is no longer among the objects alive.\<close>

definition destroy :: "engine_ref \<Rightarrow> (engine_ref \<rightharpoonup> 'e) \<Rightarrow> (engine_ref \<rightharpoonup> 'e)" where
  "destroy r alive = alive(r := None)"

subsection \<open>The class and its construction\<close>

text \<open>
  The only data member of the class is the weak reference. A platform implementation
  extends the class; its own members are the extension part of the record.
  \<^verbatim>\<open>AudioPlayer() = default;\<close> default-initialises the member: an empty weak pointer.
\<close>

record AudioPlayer =
  m_audioPlayerEngineInterface :: weak_ptr

definition new_AudioPlayer :: AudioPlayer where
  "new_AudioPlayer = \<lparr>m_audioPlayerEngineInterface = None\<rparr>"

text \<open>
  What a member function can read and change: the player it is called on and the
  engine objects that are alive.
\<close>

record ('a, 'e) world =
  player :: "'a AudioPlayer_scheme"
  engine_objects :: "engine_ref \<rightharpoonup> 'e"

subsection \<open>playerActivityChanged\<close>

text \<open>
  \<^verbatim>\<open>virtual void playerActivityChanged( PlayerActivity state ) {}\<close>
  The body of the base class is empty. The member is virtual: a call through the base
  class runs the body of the object's own class, which is the slot of its table of
  virtual members (\<open>vtable\<close>); the table of a class that does not override the member
  holds the base body.
\<close>

definition playerActivityChanged :: "activity_rep \<Rightarrow> ('a, 'e) world \<Rightarrow> ('a, 'e) world" where
  "playerActivityChanged state w = w"

record ('a, 'e) vtable =
  vt_playerActivityChanged :: "activity_rep \<Rightarrow> ('a, 'e) world \<Rightarrow> ('a, 'e) world"

definition AudioPlayer_vtable :: "('a, 'e) vtable" where
  "AudioPlayer_vtable = \<lparr>vt_playerActivityChanged = playerActivityChanged\<rparr>"

definition call_playerActivityChanged ::
    "('a, 'e) vtable \<Rightarrow> activity_rep \<Rightarrow> ('a, 'e) world \<Rightarrow> ('a, 'e) world" where
  "call_playerActivityChanged vt state w = vt_playerActivityChanged vt state w"

text \<open>The engine pushing a sequence of states: one virtual call for each, in order.\<close>

fun push_states :: "('a, 'e) vtable \<Rightarrow> activity_rep list \<Rightarrow> ('a, 'e) world \<Rightarrow> ('a, 'e) world" where
  "push_states vt [] w = w"
| "push_states vt (state # states) w = push_states vt states (call_playerActivityChanged vt state w)"

text \<open>
  A platform implementation used to observe the calls: its override appends the state it
  is called with to a member of its own.
\<close>

record Recorder = AudioPlayer +
  observed :: "activity_rep list"

definition Recorder_playerActivityChanged ::
    "activity_rep \<Rightarrow> ('a Recorder_ext, 'e) world \<Rightarrow> ('a Recorder_ext, 'e) world" where
  "Recorder_playerActivityChanged state w =
     w\<lparr>player := (player w)\<lparr>observed := observed (player w) @ [state]\<rparr>\<rparr>"

definition Recorder_vtable :: "('a Recorder_ext, 'e) vtable" where
  "Recorder_vtable = \<lparr>vt_playerActivityChanged = Recorder_playerActivityChanged\<rparr>"

subsection \<open>getPlayerPosition and getPlayerDuration: the declarations\<close>

text \<open>
  \<^verbatim>\<open>int64_t getPlayerPosition();\<close> and \<^verbatim>\<open>int64_t getPlayerDuration();\<close>
  Unlike playerActivityChanged, the two members are declared without \<^verbatim>\<open>virtual\<close>
  (the base class \<^verbatim>\<open>aace::core::PlatformInterface\<close> is taken to declare no member
  of these names), and their bodies are not in AudioPlayer.h. A member that is not
  virtual has no slot in the table of virtual members: a call through the bridge is
  bound to the body of AudioPlayer, whatever the class of the object is. The two bodies
  are a parameter; a body is compiled with AudioPlayer alone, so it is a function of
  the state (it returns the value and the state it leaves) and not of what a derived
  class declares.
\<close>

record ('a, 'e) AudioPlayer_bodies =
  body_getPlayerPosition :: "('a, 'e) world \<Rightarrow> int64_t \<times> ('a, 'e) world"
  body_getPlayerDuration :: "('a, 'e) world \<Rightarrow> int64_t \<times> ('a, 'e) world"

text \<open>
  A class derived from AudioPlayer may declare members with the same names. They cannot
  override the members of AudioPlayer, which are not virtual; they are members of the
  derived class only.
\<close>

record ('a, 'e) platform_class =
  own_getPlayerPosition :: "('a, 'e) world \<Rightarrow> int64_t \<times> ('a, 'e) world"
  own_getPlayerDuration :: "('a, 'e) world \<Rightarrow> int64_t \<times> ('a, 'e) world"

text \<open>
  The call \<^verbatim>\<open>player->getPlayerPosition()\<close> on an object of the platform's class held
  as an AudioPlayer, and the same for the duration.
\<close>

definition call_getPlayerPosition ::
    "('a, 'e) AudioPlayer_bodies \<Rightarrow> ('a, 'e) platform_class \<Rightarrow> ('a, 'e) world
      \<Rightarrow> int64_t \<times> ('a, 'e) world" where
  "call_getPlayerPosition bodies cls w = body_getPlayerPosition bodies w"

definition call_getPlayerDuration ::
    "('a, 'e) AudioPlayer_bodies \<Rightarrow> ('a, 'e) platform_class \<Rightarrow> ('a, 'e) world
      \<Rightarrow> int64_t \<times> ('a, 'e) world" where
  "call_getPlayerDuration bodies cls w = body_getPlayerDuration bodies w"

text \<open>
  Two platform classes that differ in the values their own members produce: one second
  into a one-minute item, and two seconds into a two-minute item.
\<close>

definition one_second_in :: "('a, 'e) platform_class" where
  "one_second_in =
     \<lparr>own_getPlayerPosition = (\<lambda>w. (1000, w)), own_getPlayerDuration = (\<lambda>w. (60000, w))\<rparr>"

definition two_seconds_in :: "('a, 'e) platform_class" where
  "two_seconds_in =
     \<lparr>own_getPlayerPosition = (\<lambda>w. (2000, w)), own_getPlayerDuration = (\<lambda>w. (120000, w))\<rparr>"

text \<open>A state to call them on: a bridge as constructed, and no engine object alive.\<close>

definition constructed_only :: "(unit, nat) world" where
  "constructed_only = \<lparr>player = new_AudioPlayer, engine_objects = Map.empty\<rparr>"

section \<open>Members declared in AudioPlayer.h whose bodies are in another file\<close>

subsection \<open>setEngineInterface\<close>

text \<open>
  Modelled from the spec: the body of \<^verbatim>\<open>AudioPlayer::setEngineInterface\<close>, of which
  AudioPlayer.h holds the declaration only. Section 4.3: "Attachment operation:
  setEngineInterface(channel) - replaces the stored weak reference"; section 3:
  "re-attachment replaces the previous weak reference without explicit teardown of the
  old one". The weak pointer made from a shared pointer refers to the same object, and
  is empty when the shared pointer is null.
\<close>

definition setEngineInterface :: "shared_ptr \<Rightarrow> 'a AudioPlayer_scheme \<Rightarrow> 'a AudioPlayer_scheme" where
  "setEngineInterface audioPlayerEngineInterface p =
     p\<lparr>m_audioPlayerEngineInterface := audioPlayerEngineInterface\<rparr>"

text \<open>
  Modelled from the spec: the attachment (section 6, "Attachment: setEngineInterface(channel)")
  seen on the whole state: setEngineInterface on the player, the engine objects untouched.
\<close>

definition attach :: "shared_ptr \<Rightarrow> ('a, 'e) world \<Rightarrow> ('a, 'e) world" where
  "attach audioPlayerEngineInterface w = w\<lparr>player := setEngineInterface audioPlayerEngineInterface (player w)\<rparr>"

subsection \<open>Outbound calls through the channel\<close>

text \<open>
  Modelled from the spec: a call of the bridge toward the engine; no member of
  AudioPlayer.h has a body that makes one. Section 4.4: "all outbound calls toward the
  engine [...] must first resolve the weak reference and silently skip the call if the
  referenced engine object no longer exists". The called engine member is a parameter:
  it changes the engine object or raises.
\<close>

datatype error = EngineFailure

text \<open>
  Modelled from the spec: the step "first resolve the weak reference" of section 4.4, the
  \<^verbatim>\<open>lock()\<close> of the stored member.
\<close>

definition resolve :: "('a, 'e) world \<Rightarrow> shared_ptr" where
  "resolve w = lock (engine_objects w) (m_audioPlayerEngineInterface (player w))"

text \<open>
  Modelled from the spec: one outbound call (section 4.4; section 7, "resolving an expired
  weak engine reference - handled by silently skipping the call"). When the reference
  resolves, the engine member runs on the object; its exception, if any, is the result.
\<close>

definition outbound_call :: "('e \<Rightarrow> error + 'e) \<Rightarrow> ('a, 'e) world \<Rightarrow> error + ('a, 'e) world" where
  "outbound_call member w =
     (case resolve w of
        None \<Rightarrow> Inr w
      | Some r \<Rightarrow>
          (case engine_objects w r of
             None \<Rightarrow> Inr w
           | Some obj \<Rightarrow>
               (case member obj of
                  Inl e \<Rightarrow> Inl e
                | Inr obj' \<Rightarrow> Inr (w\<lparr>engine_objects := (engine_objects w)(r \<mapsto> obj')\<rparr>))))"

text \<open>
  Modelled from the spec: "any subsequent outbound call" (section 8), several outbound
  calls one after the other; an exception ends the sequence.
\<close>

fun outbound_calls :: "('e \<Rightarrow> error + 'e) list \<Rightarrow> ('a, 'e) world \<Rightarrow> error + ('a, 'e) world" where
  "outbound_calls [] w = Inr w"
| "outbound_calls (member # members) w =
     (case outbound_call member w of
        Inl e \<Rightarrow> Inl e
      | Inr w' \<Rightarrow> outbound_calls members w')"

subsection \<open>getPlayerPosition and getPlayerDuration\<close>

text \<open>
  Modelled from the spec: the bodies of \<^verbatim>\<open>AudioPlayer::getPlayerPosition\<close> and
  \<^verbatim>\<open>AudioPlayer::getPlayerDuration\<close> and the platform's implementation behind them;
  AudioPlayer.h holds the two declarations only. Section 3: "TimeValue: a signed 64-bit
  integer representing milliseconds, OR the sentinel TIME_UNKNOWN = -1. Invariant: any
  non-sentinel value must be >= 0". Section 4.2: "Both are delegated to the platform's
  concrete audio-rendering implementation (the subclass/implementor)", which is to
  "return the last known position" and to "return TIME_UNKNOWN when the value is not
  determinable". Section 8: "concrete implementor's default (no cached value) yields
  TIME_UNKNOWN".

  The doc comments of the two declarations in AudioPlayer.h say the same of the result:
  "playback position in milliseconds, or TIME_UNKNOWN if the current media position is
  unknown or invalid". Both members are declared without \<^verbatim>\<open>virtual\<close>, so the
  implementation behind them is not an override of the member: it is modelled as the
  state the platform's class adds to the bridge, which the member reads.
\<close>

text \<open>
  Modelled from the spec: a valid millisecond count (section 3, "any non-sentinel value
  must be >= 0"), a 64-bit value that is not negative.
\<close>

typedef millis = "{v :: int64_t. 0 \<le>s v}"
  morphisms ms_value Abs_millis
  by (rule exI [of _ 0]) simp

text \<open>
  Modelled from the spec: the TimeValue of section 3 as the 64-bit value returned, the
  sentinel when nothing is known and the count otherwise.
\<close>

definition time_value :: "millis option \<Rightarrow> int64_t" where
  "time_value known = (case known of None \<Rightarrow> TIME_UNKNOWN | Some ms \<Rightarrow> ms_value ms)"

text \<open>
  Modelled from the spec: the platform's concrete implementation (section 4.2), a class
  that extends the bridge and keeps the last known position and duration, if any.
\<close>

record Implementor = AudioPlayer +
  last_position :: "millis option"
  last_duration :: "millis option"

text \<open>
  Modelled from the spec: the implementor as constructed (section 8, "bridge constructed",
  "no cached value"): the base part as the defaulted constructor leaves it, nothing known.
\<close>

definition new_Implementor :: Implementor where
  "new_Implementor =
     \<lparr>m_audioPlayerEngineInterface = m_audioPlayerEngineInterface new_AudioPlayer,
      last_position = None, last_duration = None\<rparr>"

text \<open>
  Modelled from the spec: \<^verbatim>\<open>int64_t getPlayerPosition()\<close>, delegated to the implementor
  (section 4.2).
\<close>

definition getPlayerPosition :: "'a Implementor_scheme \<Rightarrow> int64_t" where
  "getPlayerPosition p = time_value (last_position p)"

text \<open>
  Modelled from the spec: \<^verbatim>\<open>int64_t getPlayerDuration()\<close>, delegated to the implementor
  (section 4.2).
\<close>

definition getPlayerDuration :: "'a Implementor_scheme \<Rightarrow> int64_t" where
  "getPlayerDuration p = time_value (last_duration p)"

section \<open>Properties of the rendering\<close>

lemma switch_label_enumerator: "switch_label (enumerator_value a) = Some a"
  by (cases a) (simp_all add: switch_label_def)

lemma switch_label_Some: "switch_label v = Some a \<Longrightarrow> v = enumerator_value a"
  by (simp add: switch_label_def split: if_splits)

lemma is_enumerator_iff: "is_enumerator v \<longleftrightarrow> (\<exists>a. v = enumerator_value a)"
proof
  assume "is_enumerator v"
  then show "\<exists>a. v = enumerator_value a"
    by (auto simp: is_enumerator_def)
next
  assume "\<exists>a. v = enumerator_value a"
  then obtain a where v: "v = enumerator_value a" ..
  show "is_enumerator v"
    unfolding v is_enumerator_def enumerators_def by (cases a) simp_all
qed

lemma switch_label_None: "\<not> is_enumerator v \<Longrightarrow> switch_label v = None"
proof (cases "switch_label v")
  case None
  then show ?thesis by simp
next
  case (Some a)
  assume "\<not> is_enumerator v"
  moreover from Some have "is_enumerator v"
    using is_enumerator_iff switch_label_Some by blast
  ultimately show ?thesis by contradiction
qed

lemma case_literal_inj: "case_literal a = case_literal b \<Longrightarrow> a = b"
  by (cases a; cases b) simp_all

text \<open>
  C3. The textual rendering is total over the six enumerators: for each of them exactly
  one case label of the switch is selected (its own, so the path without a matching
  case is not taken), the operator appends that case's literal, the rendering is not
  empty, and the six renderings are pairwise distinct.
\<close>

theorem rendering_total_distinct:
  "(\<forall>a. switch_label (enumerator_value a) = Some a)
   \<and> (\<forall>a stream. operator_shift stream (enumerator_value a) = stream @ case_literal a)
   \<and> (\<forall>a. rendering (enumerator_value a) \<noteq> [])
   \<and> distinct (map (\<lambda>a. rendering (enumerator_value a)) enumerators)
   \<and> length enumerators = 6
   \<and> (\<forall>a. a \<in> set enumerators)"
proof -
  have r: "rendering (enumerator_value a) = case_literal a" for a
    by (simp add: rendering_def operator_shift_def switch_label_enumerator)
  have ne: "case_literal a \<noteq> []" for a
    by (cases a) simp_all
  have d: "distinct (map (\<lambda>a. rendering (enumerator_value a)) enumerators)"
    unfolding r by (simp add: enumerators_def)
  have m: "a \<in> set enumerators" for a
    by (cases a) (simp_all add: enumerators_def)
  show ?thesis
    using d m by (simp add: operator_shift_def switch_label_enumerator r ne enumerators_def)
qed

text \<open>
  C9. For each of the six values the operator writes exactly the enumerator's own name.
\<close>

theorem rendering_is_enumerator_name:
  "operator_shift stream (enumerator_value IDLE) = stream @ ''IDLE''
   \<and> operator_shift stream (enumerator_value PLAYING) = stream @ ''PLAYING''
   \<and> operator_shift stream (enumerator_value STOPPED) = stream @ ''STOPPED''
   \<and> operator_shift stream (enumerator_value PAUSED) = stream @ ''PAUSED''
   \<and> operator_shift stream (enumerator_value BUFFER_UNDERRUN) = stream @ ''BUFFER_UNDERRUN''
   \<and> operator_shift stream (enumerator_value FINISHED) = stream @ ''FINISHED''"
  by (simp add: operator_shift_def switch_label_def)

text \<open>
  C10. Applied to an operand whose value is none of the six enumerators, the switch
  selects no case label (there is no default branch), nothing is written, and the
  stream is returned as it was.
\<close>

theorem operator_shift_outside_enumerators:
  "\<not> is_enumerator v \<Longrightarrow> switch_label v = None \<and> operator_shift stream v = stream"
  by (simp add: operator_shift_def switch_label_None)

theorem operator_shift_outside_enumerators_witness:
  "\<not> is_enumerator 6 \<and> switch_label 6 = None \<and> operator_shift ''state: '' 6 = ''state: ''
   \<and> \<not> is_enumerator (- 1) \<and> operator_shift ''state: '' (- 1) = ''state: ''"
proof -
  have h6: "\<not> is_enumerator 6"
    by (simp add: is_enumerator_def enumerators_def)
  have hm: "\<not> is_enumerator (- 1)"
    by (simp add: is_enumerator_def enumerators_def)
  show ?thesis
    using h6 hm operator_shift_outside_enumerators [OF h6, of "''state: ''"]
      operator_shift_outside_enumerators [OF hm, of "''state: ''"]
    by simp
qed

section \<open>Properties of the class\<close>

subsection \<open>The notification\<close>

lemma push_states_default: "push_states AudioPlayer_vtable states w = w"
  by (induction states)
     (simp_all add: call_playerActivityChanged_def AudioPlayer_vtable_def playerActivityChanged_def)

lemma push_states_foldl:
  "push_states vt states w = foldl (\<lambda>w' state. vt_playerActivityChanged vt state w') w states"
  by (induction states arbitrary: w) (simp_all add: call_playerActivityChanged_def)

lemma push_states_Recorder:
  "observed (player (push_states Recorder_vtable states w)) = observed (player w) @ states"
proof (induction states arbitrary: w)
  case Nil
  show ?case by simp
next
  case (Cons state states)
  have "observed (player (call_playerActivityChanged Recorder_vtable state w))
      = observed (player w) @ [state]"
    by (simp add: call_playerActivityChanged_def Recorder_vtable_def
        Recorder_playerActivityChanged_def)
  with Cons.IH [of "call_playerActivityChanged Recorder_vtable state w"] show ?case
    by simp
qed

text \<open>
  C8. The body of the base class is a no-op for every argument: the call returns, and the
  player (in particular its stored engine reference) and the engine objects are as
  before; so it is for a call through the table of a class that does not override the
  member, and for any sequence of such calls.
\<close>

theorem playerActivityChanged_default_noop:
  "playerActivityChanged state w = w
   \<and> call_playerActivityChanged AudioPlayer_vtable state w = w
   \<and> m_audioPlayerEngineInterface (player (call_playerActivityChanged AudioPlayer_vtable state w))
       = m_audioPlayerEngineInterface (player w)
   \<and> push_states AudioPlayer_vtable states w = w"
proof -
  have c: "call_playerActivityChanged AudioPlayer_vtable state w = w"
    by (simp add: call_playerActivityChanged_def AudioPlayer_vtable_def playerActivityChanged_def)
  have b: "playerActivityChanged state w = w"
    by (simp add: playerActivityChanged_def)
  have s: "push_states AudioPlayer_vtable states w = w"
    by (rule push_states_default)
  show ?thesis
    unfolding c s b by simp
qed

text \<open>
  C4. No transition is validated: pushing any sequence of states runs the object's own
  playerActivityChanged once for each pushed state, with that state, in push order (the
  result is the left fold of the override over the sequence). An override that records
  its argument has recorded exactly the pushed sequence afterwards, whatever the values
  and their order; PLAYING, PAUSED, FINISHED is one such sequence.
\<close>

theorem playerActivityChanged_every_push_observed:
  "push_states vt states w = foldl (\<lambda>w' state. vt_playerActivityChanged vt state w') w states
   \<and> observed (player (push_states Recorder_vtable states rw)) = observed (player rw) @ states
   \<and> observed (player (push_states Recorder_vtable
         (map enumerator_value [PLAYING, PAUSED, FINISHED])
         \<lparr>player = \<lparr>m_audioPlayerEngineInterface = None, observed = []\<rparr>,
          engine_objects = Map.empty\<rparr>))
       = [enumerator_value PLAYING, enumerator_value PAUSED, enumerator_value FINISHED]"
proof -
  have "push_states vt states w = foldl (\<lambda>w' state. vt_playerActivityChanged vt state w') w states"
    by (rule push_states_foldl)
  moreover have "observed (player (push_states Recorder_vtable states rw)) = observed (player rw) @ states"
    by (rule push_states_Recorder)
  moreover have "observed (player (push_states Recorder_vtable
         (map enumerator_value [PLAYING, PAUSED, FINISHED])
         \<lparr>player = \<lparr>m_audioPlayerEngineInterface = None, observed = []\<rparr>,
          engine_objects = Map.empty\<rparr>))
       = [enumerator_value PLAYING, enumerator_value PAUSED, enumerator_value FINISHED]"
    unfolding push_states_Recorder by simp
  ultimately show ?thesis
    by blast
qed

subsection \<open>The engine reference\<close>

lemma outbound_call_expired:
  "expired (engine_objects w) (m_audioPlayerEngineInterface (player w)) \<Longrightarrow>
     outbound_call member w = Inr w"
  by (simp add: outbound_call_def resolve_def expired_def)

lemma outbound_calls_expired:
  "expired (engine_objects w) (m_audioPlayerEngineInterface (player w)) \<Longrightarrow>
     outbound_calls members w = Inr w"
  by (induction members) (simp_all add: outbound_call_expired)

lemma expired_destroyed: "expired (destroy r alive) (Some r)"
  by (simp add: expired_def lock_def destroy_def)

text \<open>
  C1. While the stored weak reference is expired (the engine object it refers to has
  been destroyed), an outbound call through the channel is skipped: it returns without
  an exception, whatever the engine member would have done, and the player and the
  engine objects are as before; so the same holds for every further outbound call.
\<close>

theorem outbound_call_expired_is_noop:
  "expired (engine_objects w) (m_audioPlayerEngineInterface (player w)) \<Longrightarrow>
     outbound_call member w = Inr w \<and> outbound_calls members w = Inr w"
  by (simp add: outbound_call_expired outbound_calls_expired)

theorem outbound_call_expired_is_noop_witness:
  "expired (engine_objects
       (\<lparr>player = setEngineInterface (Some 7) new_AudioPlayer,
         engine_objects = destroy 7 [7 \<mapsto> (0::nat), 8 \<mapsto> 0]\<rparr>))
     (m_audioPlayerEngineInterface (player
       (\<lparr>player = setEngineInterface (Some 7) new_AudioPlayer,
         engine_objects = destroy 7 [7 \<mapsto> (0::nat), 8 \<mapsto> 0]\<rparr>)))
   \<and> outbound_call (\<lambda>obj. Inl EngineFailure)
       \<lparr>player = setEngineInterface (Some 7) new_AudioPlayer,
        engine_objects = destroy 7 [7 \<mapsto> (0::nat), 8 \<mapsto> 0]\<rparr>
     = Inr \<lparr>player = setEngineInterface (Some 7) new_AudioPlayer,
        engine_objects = destroy 7 [7 \<mapsto> (0::nat), 8 \<mapsto> 0]\<rparr>
   \<and> outbound_calls [\<lambda>obj. Inr (Suc obj), \<lambda>obj. Inl EngineFailure]
       \<lparr>player = setEngineInterface (Some 7) new_AudioPlayer,
        engine_objects = destroy 7 [7 \<mapsto> (0::nat), 8 \<mapsto> 0]\<rparr>
     = Inr \<lparr>player = setEngineInterface (Some 7) new_AudioPlayer,
        engine_objects = destroy 7 [7 \<mapsto> (0::nat), 8 \<mapsto> 0]\<rparr>"
proof -
  let ?w = "\<lparr>player = setEngineInterface (Some 7) new_AudioPlayer,
             engine_objects = destroy 7 [7 \<mapsto> (0::nat), 8 \<mapsto> 0]\<rparr>"
  have h: "expired (engine_objects ?w) (m_audioPlayerEngineInterface (player ?w))"
    by (simp add: expired_def lock_def destroy_def setEngineInterface_def new_AudioPlayer_def)
  show ?thesis
    using h
      outbound_call_expired_is_noop [OF h, of "\<lambda>obj. Inl EngineFailure"
        "[\<lambda>obj. Inr (Suc obj), \<lambda>obj. Inl EngineFailure]"]
      outbound_call_expired_is_noop [OF h, of "\<lambda>obj. Inl EngineFailure" "[]"]
    by simp
qed

lemma setEngineInterface_twice:
  "setEngineInterface b (setEngineInterface a p) = setEngineInterface b p"
  by (simp add: setEngineInterface_def)

lemma attach_twice: "attach b (attach a w) = attach b w"
  by (simp add: attach_def setEngineInterface_twice)

lemma resolve_attach: "resolve (attach ch w) = lock (engine_objects w) ch"
  by (simp add: resolve_def attach_def setEngineInterface_def)

lemma lock_cases: "lock alive ch = None \<or> lock alive ch = ch"
  by (simp add: lock_def split: option.splits)

text \<open>
  C2. setEngineInterface overwrites: after setEngineInterface(A) and then
  setEngineInterface(B) the player is as after setEngineInterface(B) alone, the stored
  reference is B, an outbound call resolves it to B's object or, when that object is
  gone, to nothing, and behaves as if A had never been attached; when A and B are
  different channels the reference never resolves to A. Setting the same channel twice
  is the same as setting it once.
\<close>

theorem setEngineInterface_last_write_wins:
  "setEngineInterface (Some b) (setEngineInterface (Some a) p) = setEngineInterface (Some b) p
   \<and> m_audioPlayerEngineInterface (setEngineInterface (Some b) (setEngineInterface (Some a) p)) = Some b
   \<and> resolve (attach (Some b) (attach (Some a) w)) = lock (engine_objects w) (Some b)
   \<and> (resolve (attach (Some b) (attach (Some a) w)) = Some b
        \<or> resolve (attach (Some b) (attach (Some a) w)) = None)
   \<and> (a \<noteq> b \<longrightarrow> resolve (attach (Some b) (attach (Some a) w)) \<noteq> Some a)
   \<and> outbound_call member (attach (Some b) (attach (Some a) w))
       = outbound_call member (attach (Some b) w)
   \<and> setEngineInterface (Some a) (setEngineInterface (Some a) p) = setEngineInterface (Some a) p"
proof -
  let ?w2 = "attach (Some b) (attach (Some a) w)"
  have t: "setEngineInterface (Some b) (setEngineInterface (Some a) p) = setEngineInterface (Some b) p"
    by (rule setEngineInterface_twice)
  have m: "m_audioPlayerEngineInterface (setEngineInterface (Some b) (setEngineInterface (Some a) p)) = Some b"
    by (simp add: setEngineInterface_def)
  have r: "resolve ?w2 = lock (engine_objects w) (Some b)"
    by (simp add: attach_twice resolve_attach)
  have c: "resolve ?w2 = Some b \<or> resolve ?w2 = None"
    using lock_cases [of "engine_objects w" "Some b"] unfolding r by auto
  from c have n: "a \<noteq> b \<longrightarrow> resolve ?w2 \<noteq> Some a"
    by auto
  have o: "outbound_call member ?w2 = outbound_call member (attach (Some b) w)"
    by (simp only: attach_twice)
  have i: "setEngineInterface (Some a) (setEngineInterface (Some a) p) = setEngineInterface (Some a) p"
    by (rule setEngineInterface_twice)
  from t m r c n o i show ?thesis
    by blast
qed

theorem setEngineInterface_last_write_wins_witness:
  "(1::nat) \<noteq> 2
   \<and> resolve (attach (Some 2) (attach (Some 1)
        \<lparr>player = new_AudioPlayer, engine_objects = [1 \<mapsto> (0::nat), 2 \<mapsto> 0]\<rparr>)) = Some 2
   \<and> resolve (attach (Some 2) (attach (Some 1)
        \<lparr>player = new_AudioPlayer, engine_objects = [1 \<mapsto> (0::nat), 2 \<mapsto> 0]\<rparr>)) \<noteq> Some 1"
proof -
  have h: "(1::nat) \<noteq> 2" by simp
  have l: "lock [1 \<mapsto> (0::nat), 2 \<mapsto> 0] (Some 2) = Some 2"
    by (simp add: lock_def)
  show ?thesis
    using h l setEngineInterface_last_write_wins [of 2 1 new_AudioPlayer
        "\<lparr>player = new_AudioPlayer, engine_objects = [1 \<mapsto> (0::nat), 2 \<mapsto> 0]\<rparr>"
        "\<lambda>obj. Inr obj"]
    by simp
qed

subsection \<open>The time queries\<close>

lemma time_value_bound: "- 1 \<le>s time_value known \<and> (time_value known = TIME_UNKNOWN \<or> 0 \<le>s time_value known)"
proof (cases known)
  case None
  then show ?thesis by (simp add: time_value_def TIME_UNKNOWN_def)
next
  case (Some ms)
  have "0 \<le>s ms_value ms"
    using ms_value [of ms] by simp
  then show ?thesis
    using Some by (simp add: time_value_def word_sle_eq)
qed

text \<open>
  C5. getPlayerPosition and getPlayerDuration never return a value below -1: the result
  is the sentinel TIME_UNKNOWN, which is -1, or a millisecond count that is not negative.
\<close>

theorem time_queries_at_least_minus_one:
  "sint TIME_UNKNOWN = - 1
   \<and> - 1 \<le> sint (getPlayerPosition p)
   \<and> - 1 \<le> sint (getPlayerDuration p)
   \<and> (getPlayerPosition p = TIME_UNKNOWN \<or> 0 \<le> sint (getPlayerPosition p))
   \<and> (getPlayerDuration p = TIME_UNKNOWN \<or> 0 \<le> sint (getPlayerDuration p))"
  using time_value_bound [of "last_position p"] time_value_bound [of "last_duration p"]
  by (simp add: getPlayerPosition_def getPlayerDuration_def TIME_UNKNOWN_def word_sle_eq)

text \<open>
  The claim that the value each query returns is the one produced by the platform
  subclass overriding it does not hold: whatever the bodies of AudioPlayer are, a call
  through the bridge on the same state cannot return 1000 for the class whose own member
  produces 1000 and 2000 for the class whose own member produces 2000 (and likewise for
  the durations).
\<close>

theorem time_queries_override_counterexample:
  "\<not> (\<exists>bodies.
        fst (call_getPlayerPosition bodies one_second_in constructed_only)
          = fst (own_getPlayerPosition one_second_in constructed_only)
      \<and> fst (call_getPlayerPosition bodies two_seconds_in constructed_only)
          = fst (own_getPlayerPosition two_seconds_in constructed_only))
   \<and> \<not> (\<exists>bodies.
        fst (call_getPlayerDuration bodies one_second_in constructed_only)
          = fst (own_getPlayerDuration one_second_in constructed_only)
      \<and> fst (call_getPlayerDuration bodies two_seconds_in constructed_only)
          = fst (own_getPlayerDuration two_seconds_in constructed_only))"
proof -
  have position: False
    if "fst (call_getPlayerPosition bodies one_second_in constructed_only)
          = fst (own_getPlayerPosition one_second_in constructed_only)"
      and "fst (call_getPlayerPosition bodies two_seconds_in constructed_only)
          = fst (own_getPlayerPosition two_seconds_in constructed_only)"
    for bodies
  proof -
    from that have "fst (body_getPlayerPosition bodies constructed_only) = 1000"
      and "fst (body_getPlayerPosition bodies constructed_only) = 2000"
      by (simp_all add: call_getPlayerPosition_def one_second_in_def two_seconds_in_def)
    then have "(1000 :: int64_t) = 2000" by simp
    then show False by simp
  qed
  have duration: False
    if "fst (call_getPlayerDuration bodies one_second_in constructed_only)
          = fst (own_getPlayerDuration one_second_in constructed_only)"
      and "fst (call_getPlayerDuration bodies two_seconds_in constructed_only)
          = fst (own_getPlayerDuration two_seconds_in constructed_only)"
    for bodies
  proof -
    from that have "fst (body_getPlayerDuration bodies constructed_only) = 60000"
      and "fst (body_getPlayerDuration bodies constructed_only) = 120000"
      by (simp_all add: call_getPlayerDuration_def one_second_in_def two_seconds_in_def)
    then have "(60000 :: int64_t) = 120000" by simp
    then show False by simp
  qed
  from position duration show ?thesis
    by blast
qed

text \<open>
  C6, as amended. getPlayerPosition and getPlayerDuration are members of the bridge that
  are not virtual and whose bodies AudioPlayer.h does not provide: a call through the
  bridge runs the body of AudioPlayer, it returns the same value and leaves the same
  state for every class of the object, and a member of the same name that a platform
  subclass declares does not change what the call returns.
\<close>

theorem time_queries_statically_bound:
  "call_getPlayerPosition bodies cls w = call_getPlayerPosition bodies cls' w
   \<and> call_getPlayerDuration bodies cls w = call_getPlayerDuration bodies cls' w
   \<and> call_getPlayerPosition bodies (cls\<lparr>own_getPlayerPosition := f\<rparr>) w
       = call_getPlayerPosition bodies cls w
   \<and> call_getPlayerDuration bodies (cls\<lparr>own_getPlayerDuration := g\<rparr>) w
       = call_getPlayerDuration bodies cls w
   \<and> call_getPlayerPosition bodies one_second_in w = call_getPlayerPosition bodies two_seconds_in w
   \<and> call_getPlayerPosition bodies cls w = body_getPlayerPosition bodies w
   \<and> call_getPlayerDuration bodies cls w = body_getPlayerDuration bodies w"
  by (simp add: call_getPlayerPosition_def call_getPlayerDuration_def)

text \<open>
  C7. A freshly constructed bridge has no engine channel attached (its weak reference
  is empty and resolves to nothing), and getPlayerPosition on it, before any
  setEngineInterface, returns TIME_UNKNOWN, that is -1.
\<close>

theorem fresh_bridge_position_unknown:
  "m_audioPlayerEngineInterface new_AudioPlayer = None
   \<and> m_audioPlayerEngineInterface new_Implementor = None
   \<and> expired alive (m_audioPlayerEngineInterface new_Implementor)
   \<and> getPlayerPosition new_Implementor = TIME_UNKNOWN
   \<and> sint (getPlayerPosition new_Implementor) = - 1"
  by (simp add: new_AudioPlayer_def new_Implementor_def expired_def lock_def
      getPlayerPosition_def time_value_def TIME_UNKNOWN_def)

end
